theory Spec2Isabelle
  imports Main
begin

section \<open>Video generation service: request construction, polling, result resolution\<close>

text \<open>
  A shallow embedding of the service module that exports \<open>generateVideo\<close> and
  \<open>enhancePrompt\<close>. The module builds one request payload from the parameters of
  the form, submits it, polls the returned operation and downloads the first video.

  The remote service, \<open>fetch\<close>, \<open>decodeURIComponent\<close>, \<open>URL.createObjectURL\<close> and
  \<open>process.env.API_KEY\<close> are outside the module; they are the fields of the record
  \<open>Env\<close>. Every call that leaves the module (a submission, a timer wait, a status
  poll, an HTTP fetch) is written to a trace, in the order the source issues it, so
  that "before any network call" and "exactly 60 polls" are statements about a list.
  Constructing the SDK client (\<open>new GoogleGenAI\<close>) and \<open>console.log\<close> leave no
  trace entry; the client constructor is taken not to fail.
\<close>

subsection \<open>Data\<close>

text \<open>
  Modelled from the spec: the type declarations of \<open>types.ts\<close> and of the SDK, which
  are not among the sources. The records below hold the fields the module reads and
  writes, under the names it uses. An optional or nullable field is an \<open>option\<close>. The string enums \<open>VeoModel\<close>, \<open>AspectRatio\<close> and
  \<open>Resolution\<close> are strings, as they are at run time. Fields of the outgoing
  payload whose names would repeat a field of the parameters carry the prefix
  \<open>cfg_\<close> (config block) or \<open>pl_\<close> (payload).
\<close>

datatype GenerationMode =
  TEXT_TO_VIDEO | FRAMES_TO_VIDEO | REFERENCES_TO_VIDEO | EXTEND_VIDEO

record File =
  name :: string
  type :: string

record ImageFile =
  "file" :: File
  base64 :: string

type_synonym VideoFile = ImageFile

record Video =
  uri :: "string option"
  videoBytes :: "string option"
  video_mimeType :: "string option"

record GenerateVideoParams =
  prompt :: string
  model :: string
  aspectRatio :: string
  resolution :: string
  mode :: GenerationMode
  startFrame :: "ImageFile option"
  endFrame :: "ImageFile option"
  referenceImages :: "ImageFile list option"
  styleImage :: "ImageFile option"
  inputVideo :: "VideoFile option"
  inputVideoObject :: "Video option"
  isLooping :: bool

datatype VideoGenerationReferenceType = ASSET | STYLE

record Image =
  imageBytes :: string
  mimeType :: string

record VideoGenerationReferenceImage =
  ref_image :: Image
  referenceType :: VideoGenerationReferenceType

record VideoGenerationConfig =
  numberOfVideos :: nat
  cfg_resolution :: string
  cfg_aspectRatio :: "string option"
  cfg_referenceImages :: "VideoGenerationReferenceImage list option"
  lastFrame :: "Image option"

record GenerateVideosParameters =
  pl_model :: string
  config :: VideoGenerationConfig
  pl_prompt :: "string option"
  image :: "Image option"
  pl_video :: "Video option"

record GeneratedVideo =
  video :: "Video option"

record GenerateVideosResponse =
  generatedVideos :: "GeneratedVideo list option"

text \<open>
  The operation handle. An absent \<open>done\<close> is falsy in the source and reads as
  \<open>False\<close> here.
\<close>

record Operation =
  op_name :: string
  "done" :: bool
  response :: "GenerateVideosResponse option"

text \<open>
  The answer of \<open>fetch\<close>. The property \<open>ok\<close> of a fetch response is derived from
  the status: it holds for the codes 200 to 299.
\<close>

record FetchResponse =
  status :: nat
  statusText :: string
  blob :: "string + string"

definition ok :: "FetchResponse \<Rightarrow> bool" where
  "ok res = (200 \<le> status res \<and> status res \<le> 299)"

record GenerateContentResponse =
  "text" :: "string option"

text \<open>
  Failures. \<open>Error m\<close> is \<open>throw new Error(m)\<close> written in the module itself;
  \<open>External x\<close> is a rejection raised inside a call to the SDK, \<open>fetch\<close>,
  \<open>blob()\<close> or \<open>decodeURIComponent\<close>, which the module never catches and which
  therefore reaches its caller unchanged.
\<close>

datatype error = Error string | External string

record GenerationResult =
  objectUrl :: string
  res_blob :: string
  res_uri :: string
  res_video :: Video

text \<open>
  The world around the module. The second argument of \<open>getVideosOperation\<close> is the
  number of status polls already answered in this run: the remote job advances
  between polls, so the same handle can be answered differently the next time.
\<close>

record Env =
  API_KEY :: "string option"
  generateVideos :: "GenerateVideosParameters \<Rightarrow> string + Operation"
  getVideosOperation :: "Operation \<Rightarrow> nat \<Rightarrow> string + Operation"
  decodeURIComponent :: "string \<Rightarrow> string + string"
  fetch :: "string \<Rightarrow> string + FetchResponse"
  createObjectURL :: "string \<Rightarrow> string"
  generateContent :: "string \<Rightarrow> string \<Rightarrow> string + GenerateContentResponse"

datatype event =
  Submit GenerateVideosParameters
| Wait nat
| Poll Operation
| Fetch string

subsection \<open>JavaScript helpers\<close>

text \<open>Decimal rendering of a number inside a template literal.\<close>

fun decimal :: "nat \<Rightarrow> string" where
  "decimal n =
     (if n < 10 then [char_of (48 + n)]
      else decimal (n div 10) @ [char_of (48 + n mod 10)])"

declare decimal.simps [simp del]

text \<open>A template literal renders an undefined value as the word \<open>undefined\<close>.\<close>

definition template_text :: "string option \<Rightarrow> string" where
  "template_text v = (case v of None \<Rightarrow> ''undefined'' | Some s \<Rightarrow> s)"

text \<open>
  \<open>String.prototype.trim\<close> on the ASCII white space characters (tab, line feed,
  vertical tab, form feed, carriage return, space). The module itself never trims;
  the form does, and the specification speaks of trimming.
\<close>

definition isWhiteSpace :: "char \<Rightarrow> bool" where
  "isWhiteSpace c = (c \<in> set [CHR 0x09, CHR 0x0A, CHR 0x0B, CHR 0x0C, CHR 0x0D, CHR 0x20])"

definition trim :: "string \<Rightarrow> string" where
  "trim s = rev (dropWhile isWhiteSpace (rev (dropWhile isWhiteSpace s)))"

subsection \<open>Building the payload\<close>

text \<open>
  Modelled from the spec: \<open>VeoModel.VEO\<close>, the full (non-fast) model. The enum is
  declared in \<open>types.ts\<close>, which is not among the sources; the value is the one the
  comment beside its use in \<open>generateVideo\<close> gives.
\<close>

definition VeoModel_VEO :: string where
  "VeoModel_VEO = ''veo-3.1-generate-preview''"

definition transitionInstruction :: string where
  "transitionInstruction =
     ''. The video must seamlessly transition from the input video to the provided last frame. Correct any inconsistencies between the input video's end and the target frame so the camera moves in one unified approach to the final frame.''"

definition missingInputVideoMessage :: string where
  "missingInputVideoMessage = ''An input video object is required to extend a video.''"

text \<open>The aspect ratio is left out when a video is extended.\<close>

definition initialConfig :: "GenerateVideoParams \<Rightarrow> VideoGenerationConfig" where
  "initialConfig params =
     (let config = \<lparr>numberOfVideos = 1, cfg_resolution = resolution params,
                     cfg_aspectRatio = None, cfg_referenceImages = None, lastFrame = None\<rparr>
      in if mode params \<noteq> EXTEND_VIDEO
         then config\<lparr>cfg_aspectRatio := Some (aspectRatio params)\<rparr>
         else config)"

text \<open>\<open>params.referenceImages && params.referenceImages.length > 0\<close>\<close>

definition selectModel :: "GenerateVideoParams \<Rightarrow> string" where
  "selectModel params =
     (case referenceImages params of
        None \<Rightarrow> model params
      | Some imgs \<Rightarrow> if length imgs > 0 then VeoModel_VEO else model params)"

text \<open>The constant \<open>endFrame\<close> of the source: the start frame when a loop is asked for.\<close>

definition effectiveEndFrame :: "GenerateVideoParams \<Rightarrow> ImageFile option" where
  "effectiveEndFrame params =
     (if mode params = FRAMES_TO_VIDEO \<and> isLooping params
      then startFrame params else endFrame params)"

text \<open>
  \<open>if (params.prompt)\<close>: a string is truthy when it is not empty. The transition
  instruction is appended to the local \<open>finalPrompt\<close> inside that branch.
\<close>

definition addPrompt ::
  "GenerateVideoParams \<Rightarrow> GenerateVideosParameters \<Rightarrow> GenerateVideosParameters" where
  "addPrompt params payload =
     (if prompt params \<noteq> []
      then (let finalPrompt = prompt params;
                finalPrompt = (if mode params = EXTEND_VIDEO \<and> effectiveEndFrame params \<noteq> None
                               then finalPrompt @ transitionInstruction else finalPrompt)
            in payload\<lparr>pl_prompt := Some finalPrompt\<rparr>)
      else payload)"

definition toImage :: "ImageFile \<Rightarrow> Image" where
  "toImage img = \<lparr>imageBytes = base64 img, mimeType = type (file img)\<rparr>"

text \<open>The \<open>for ... of\<close> loop that pushes one asset entry per reference image.\<close>

fun pushAssets ::
  "VideoGenerationReferenceImage list \<Rightarrow> ImageFile list \<Rightarrow> VideoGenerationReferenceImage list" where
  "pushAssets referenceImagesPayload [] = referenceImagesPayload"
| "pushAssets referenceImagesPayload (img # imgs) =
     pushAssets (referenceImagesPayload @ [\<lparr>ref_image = toImage img, referenceType = ASSET\<rparr>]) imgs"

definition referenceImagesPayload :: "GenerateVideoParams \<Rightarrow> VideoGenerationReferenceImage list" where
  "referenceImagesPayload params =
     (let payload0 = (case referenceImages params of
                        None \<Rightarrow> []
                      | Some imgs \<Rightarrow> pushAssets [] imgs)
      in case styleImage params of
           None \<Rightarrow> payload0
         | Some img \<Rightarrow> payload0 @ [\<lparr>ref_image = toImage img, referenceType = STYLE\<rparr>])"

definition addReferenceImages ::
  "GenerateVideoParams \<Rightarrow> GenerateVideosParameters \<Rightarrow> GenerateVideosParameters" where
  "addReferenceImages params payload =
     (if mode params = REFERENCES_TO_VIDEO \<or> mode params = EXTEND_VIDEO
      then (if length (referenceImagesPayload params) > 0
            then payload\<lparr>config := (config payload)
                    \<lparr>cfg_referenceImages := Some (referenceImagesPayload params)\<rparr>\<rparr>
            else payload)
      else payload)"

definition addLastFrame ::
  "GenerateVideoParams \<Rightarrow> GenerateVideosParameters \<Rightarrow> GenerateVideosParameters" where
  "addLastFrame params payload =
     (case effectiveEndFrame params of
        None \<Rightarrow> payload
      | Some endFrame' \<Rightarrow>
          if mode params = FRAMES_TO_VIDEO \<or> mode params = EXTEND_VIDEO
          then payload\<lparr>config := (config payload)\<lparr>lastFrame := Some (toImage endFrame')\<rparr>\<rparr>
          else payload)"

text \<open>The mode-specific input; the only place where building the payload throws.\<close>

definition addModeInput ::
  "GenerateVideoParams \<Rightarrow> GenerateVideosParameters \<Rightarrow> error + GenerateVideosParameters" where
  "addModeInput params payload =
     (if mode params = FRAMES_TO_VIDEO
      then (case startFrame params of
              Some img \<Rightarrow> Inr (payload\<lparr>image := Some (toImage img)\<rparr>)
            | None \<Rightarrow> Inr payload)
      else if mode params = EXTEND_VIDEO
      then (case inputVideoObject params of
              Some v \<Rightarrow> Inr (payload\<lparr>pl_video := Some v\<rparr>)
            | None \<Rightarrow> Inl (Error missingInputVideoMessage))
      else Inr payload)"

text \<open>Everything \<open>generateVideo\<close> does before it submits.\<close>

definition buildPayload :: "GenerateVideoParams \<Rightarrow> error + GenerateVideosParameters" where
  "buildPayload params =
     (let generateVideoPayload =
            \<lparr>pl_model = selectModel params, config = initialConfig params,
             pl_prompt = None, image = None, pl_video = None\<rparr>;
          generateVideoPayload = addPrompt params generateVideoPayload;
          generateVideoPayload = addReferenceImages params generateVideoPayload;
          generateVideoPayload = addLastFrame params generateVideoPayload
      in addModeInput params generateVideoPayload)"

subsection \<open>Polling\<close>

definition MAX_ATTEMPTS :: nat where
  "MAX_ATTEMPTS = 60"

text \<open>The argument of \<open>setTimeout\<close>, in milliseconds: ten seconds.\<close>

definition POLL_INTERVAL :: nat where
  "POLL_INTERVAL = 10000"

text \<open>
  The \<open>while\<close> loop. It returns the calls it made and the last handle, or the
  rejection of a poll.
\<close>

function pollLoop :: "Env \<Rightarrow> Operation \<Rightarrow> nat \<Rightarrow> event list \<times> (error + Operation)" where
  "pollLoop env operation attempts =
     (if \<not> done operation \<and> attempts < MAX_ATTEMPTS
      then (case getVideosOperation env operation attempts of
              Inl x \<Rightarrow> ([Wait POLL_INTERVAL, Poll operation], Inl (External x))
            | Inr operation' \<Rightarrow>
                (case pollLoop env operation' (attempts + 1) of
                   (calls, r) \<Rightarrow> (Wait POLL_INTERVAL # Poll operation # calls, r)))
      else ([], Inr operation))"
  by pat_completeness auto
termination
  by (relation "measure (\<lambda>(env, operation, attempts). MAX_ATTEMPTS - attempts)") auto

declare pollLoop.simps [simp del]

subsection \<open>Resolving the result\<close>

definition timeoutMessage :: string where
  "timeoutMessage = ''Video generation timed out after 10 minutes. Please try again.''"

definition noResponseMessage :: string where
  "noResponseMessage = ''No videos generated.''"

definition noVideosMessage :: string where
  "noVideosMessage = ''Video generation completed but no videos were returned. This may indicate an issue with the API or the request parameters.''"

definition missingUriMessage :: string where
  "missingUriMessage = ''Generated video is missing a URI.''"

definition fetchFailedMessage :: "FetchResponse \<Rightarrow> string" where
  "fetchFailedMessage res =
     ''Failed to fetch video: '' @ decimal (status res) @ '' '' @ statusText res"

text \<open>
  \<open>firstVideo?.video?.uri\<close>, when it is truthy: the video object and its locator.
\<close>

definition locatedVideo :: "GeneratedVideo \<Rightarrow> (Video \<times> string) option" where
  "locatedVideo firstVideo =
     (case video firstVideo of
        None \<Rightarrow> None
      | Some v \<Rightarrow> (case uri v of
                     None \<Rightarrow> None
                   | Some u \<Rightarrow> if u \<noteq> [] then Some (v, u) else None))"

text \<open>Decoding the locator, the download and the local handle.\<close>

definition fetchVideo :: "Env \<Rightarrow> Video \<Rightarrow> string \<Rightarrow> event list \<times> (error + GenerationResult)" where
  "fetchVideo env videoObject u =
     (case decodeURIComponent env u of
        Inl x \<Rightarrow> ([], Inl (External x))
      | Inr url \<Rightarrow>
          (let request = url @ ''&key='' @ template_text (API_KEY env)
           in case fetch env request of
                Inl x \<Rightarrow> ([Fetch request], Inl (External x))
              | Inr res \<Rightarrow>
                  if \<not> ok res then ([Fetch request], Inl (Error (fetchFailedMessage res)))
                  else (case blob res of
                          Inl x \<Rightarrow> ([Fetch request], Inl (External x))
                        | Inr videoBlob \<Rightarrow>
                            ([Fetch request],
                             Inr \<lparr>objectUrl = createObjectURL env videoBlob, res_blob = videoBlob,
                                  res_uri = url, res_video = videoObject\<rparr>))))"

text \<open>What \<open>generateVideo\<close> does with a handle whose \<open>done\<close> flag is set.\<close>

definition resolveOperation :: "Env \<Rightarrow> Operation \<Rightarrow> event list \<times> (error + GenerationResult)" where
  "resolveOperation env operation =
     (case response operation of
        None \<Rightarrow> ([], Inl (Error noResponseMessage))
      | Some resp \<Rightarrow>
          (case generatedVideos resp of
             None \<Rightarrow> ([], Inl (Error noVideosMessage))
           | Some [] \<Rightarrow> ([], Inl (Error noVideosMessage))
           | Some (firstVideo # _) \<Rightarrow>
               (case locatedVideo firstVideo of
                  None \<Rightarrow> ([], Inl (Error missingUriMessage))
                | Some (videoObject, u) \<Rightarrow> fetchVideo env videoObject u)))"

subsection \<open>The pipeline\<close>

definition generateVideo :: "Env \<Rightarrow> GenerateVideoParams \<Rightarrow> event list \<times> (error + GenerationResult)" where
  "generateVideo env params =
     (case buildPayload params of
        Inl e \<Rightarrow> ([], Inl e)
      | Inr generateVideoPayload \<Rightarrow>
          (case generateVideos env generateVideoPayload of
             Inl x \<Rightarrow> ([Submit generateVideoPayload], Inl (External x))
           | Inr operation \<Rightarrow>
               (case pollLoop env operation 0 of
                  (calls, Inl e) \<Rightarrow> (Submit generateVideoPayload # calls, Inl e)
                | (calls, Inr operation') \<Rightarrow>
                    if \<not> done operation'
                    then (Submit generateVideoPayload # calls, Inl (Error timeoutMessage))
                    else (case resolveOperation env operation' of
                            (calls', r) \<Rightarrow>
                              (Submit generateVideoPayload # calls @ calls', r)))))"

subsection \<open>Prompt enhancement\<close>

definition enhanceInstruction :: string where
  "enhanceInstruction =
     ''You are an expert prompt engineer for video generation AI. Rewrite the following user prompt to be more descriptive, visual, and detailed to produce a high-quality video. Focus on lighting, camera angles, texture, and motion. Keep it concise (max 3 sentences). Output ONLY the enhanced prompt.''
     @ [CHR 0x0A, CHR 0x0A] @ ''    User Prompt: ''"

text \<open>
  \<open>response.text || prompt\<close>: the prompt is returned when the text is absent or
  empty. There is no \<open>try\<close> around the call.
\<close>

definition enhancePrompt :: "Env \<Rightarrow> string \<Rightarrow> error + string" where
  "enhancePrompt env p =
     (case generateContent env ''gemini-2.5-flash'' (enhanceInstruction @ p) of
        Inl x \<Rightarrow> Inl (External x)
      | Inr resp \<Rightarrow>
          (case text resp of
             None \<Rightarrow> Inr p
           | Some t \<Rightarrow> if t \<noteq> [] then Inr t else Inr p))"

subsection \<open>Reading a trace\<close>

fun isPoll :: "event \<Rightarrow> bool" where
  "isPoll (Poll operation) = True"
| "isPoll e = False"

fun isWait :: "event \<Rightarrow> bool" where
  "isWait (Wait ms) = True"
| "isWait e = False"

subsection \<open>Sample inputs\<close>

text \<open>Concrete values on which the theorems below are instantiated.\<close>

definition sampleImage :: "string \<Rightarrow> ImageFile" where
  "sampleImage n = \<lparr>file = \<lparr>name = n, type = ''image/png''\<rparr>, base64 = ''iVBORw0KGgo=''\<rparr>"

definition sampleVideo :: Video where
  "sampleVideo =
     \<lparr>uri = Some ''https://example.com/files/abc:download?alt=media'',
      videoBytes = None, video_mimeType = Some ''video/mp4''\<rparr>"

definition sampleParams :: GenerateVideoParams where
  "sampleParams =
     \<lparr>prompt = ''A cat'', model = ''veo-3.1-fast-generate-preview'',
      aspectRatio = ''16:9'', resolution = ''720p'', mode = TEXT_TO_VIDEO,
      startFrame = None, endFrame = None, referenceImages = Some [],
      styleImage = None, inputVideo = None, inputVideoObject = None,
      isLooping = False\<rparr>"

definition pendingOperation :: Operation where
  "pendingOperation = \<lparr>op_name = ''operations/1'', done = False, response = None\<rparr>"

definition finishedOperation :: Operation where
  "finishedOperation =
     \<lparr>op_name = ''operations/1'', done = True,
      response = Some \<lparr>generatedVideos = Some [\<lparr>video = Some sampleVideo\<rparr>]\<rparr>\<rparr>"

text \<open>Two schedules of the remote job: one never finishes, one finishes at observation \<open>k\<close>.\<close>

definition neverDone :: "nat \<Rightarrow> Operation" where
  "neverDone i = pendingOperation"

definition doneAt :: "nat \<Rightarrow> nat \<Rightarrow> Operation" where
  "doneAt k i = (if i < k then pendingOperation else finishedOperation)"

definition okResponse :: FetchResponse where
  "okResponse = \<lparr>status = 200, statusText = ''OK'', blob = Inr ''video-bytes''\<rparr>"

definition notFoundResponse :: FetchResponse where
  "notFoundResponse = \<lparr>status = 404, statusText = ''Not Found'', blob = Inr []\<rparr>"

text \<open>
  The decoder of the sample world is \<open>decodeURIComponent\<close> on the strings that hold
  no percent sign, where it changes nothing; other strings are left out of the sample.
\<close>

definition plainDecode :: "string \<Rightarrow> string + string" where
  "plainDecode s = (if CHR 0x25 \<in> set s then Inl ''URIError'' else Inr s)"

text \<open>
  A world that answers the submission with \<open>sched 0\<close>, the poll number \<open>i\<close> (from 0)
  with \<open>sched (i + 1)\<close>, every fetch with \<open>res\<close>, and every text generation with
  \<open>answer\<close>.
\<close>

definition sampleEnv ::
  "(nat \<Rightarrow> Operation) \<Rightarrow> FetchResponse \<Rightarrow> (string + GenerateContentResponse) \<Rightarrow> Env" where
  "sampleEnv sched res answer =
     \<lparr>API_KEY = Some ''KEY'',
      generateVideos = (\<lambda>payload. Inr (sched 0)),
      getVideosOperation = (\<lambda>operation i. Inr (sched (Suc i))),
      decodeURIComponent = plainDecode,
      fetch = (\<lambda>request. Inr res),
      createObjectURL = (\<lambda>videoBlob. ''blob:sample''),
      generateContent = (\<lambda>m contents. answer)\<rparr>"

section \<open>Auxiliary facts\<close>

text \<open>
  The payload is built unless a video is to be extended and no video object came with the request.
\<close>

lemma buildPayload_succeeds:
  assumes "mode params = EXTEND_VIDEO \<longrightarrow> inputVideoObject params \<noteq> None"
  shows "\<exists>payload. buildPayload params = Inr payload"
  using assms
  by (cases "mode params")
     (auto simp: buildPayload_def addModeInput_def Let_def split: option.splits)

text \<open>
  The later steps leave the model, the prompt and the reference images as they were set.
\<close>

lemma buildPayload_model:
  "buildPayload params = Inr payload \<Longrightarrow> pl_model payload = selectModel params"
  by (auto simp: buildPayload_def addModeInput_def addPrompt_def addReferenceImages_def
        addLastFrame_def Let_def split: option.splits if_splits)

lemma buildPayload_prompt:
  "buildPayload params = Inr payload \<Longrightarrow>
   pl_prompt payload = pl_prompt (addPrompt params
      \<lparr>pl_model = selectModel params, config = initialConfig params,
       pl_prompt = None, image = None, pl_video = None\<rparr>)"
  by (auto simp: buildPayload_def addModeInput_def addPrompt_def addReferenceImages_def
        addLastFrame_def Let_def split: option.splits if_splits)

lemma buildPayload_referenceImages:
  "buildPayload params = Inr payload \<Longrightarrow>
   cfg_referenceImages (config payload) =
     (if (mode params = REFERENCES_TO_VIDEO \<or> mode params = EXTEND_VIDEO)
         \<and> referenceImagesPayload params \<noteq> []
      then Some (referenceImagesPayload params) else None)"
  by (auto simp: buildPayload_def addModeInput_def addPrompt_def addReferenceImages_def
        addLastFrame_def initialConfig_def Let_def split: option.splits if_splits)

text \<open>
  The push loop appends one asset entry per image, in order.
\<close>

lemma pushAssets_append:
  "pushAssets acc imgs =
     acc @ map (\<lambda>img. \<lparr>ref_image = toImage img, referenceType = ASSET\<rparr>) imgs"
  by (induction imgs arbitrary: acc) simp_all

text \<open>
  The run of the polling loop along a sequence \<open>h\<close> of handles: \<open>h 0\<close> is the handle
  the loop starts with, \<open>h (i + 1)\<close> the answer to the poll of \<open>h i\<close>. After \<open>k\<close>
  pending handles the loop stops, because \<open>h k\<close> is done or the attempts are used up.
\<close>

lemma upt_shift: "map f [0..<Suc k] = f 0 # map (\<lambda>i. f (Suc i)) [0..<k]"
proof -
  have "[0..<Suc k] = 0 # map Suc [0..<k]"
    by (simp add: upt_conv_Cons map_Suc_upt del: upt_Suc)
  then show ?thesis by (simp add: comp_def del: upt_Suc)
qed

lemma pollLoop_run:
  assumes "a + k \<le> MAX_ATTEMPTS"
    and "\<forall>i<k. getVideosOperation env (h i) (a + i) = Inr (h (Suc i))"
    and "\<forall>i<k. \<not> done (h i)"
    and "done (h k) \<or> a + k = MAX_ATTEMPTS"
  shows "pollLoop env (h 0) a =
           (concat (map (\<lambda>i. [Wait POLL_INTERVAL, Poll (h i)]) [0..<k]), Inr (h k))"
  using assms
proof (induction k arbitrary: a h)
  case 0
  then show ?case by (auto simp: pollLoop.simps [of env "h 0" a])
next
  case (Suc k)
  have poll0: "getVideosOperation env (h 0) a = Inr (h (Suc 0))"
    using Suc.prems(2) by force
  have pending: "\<not> done (h 0)" and room: "a < MAX_ATTEMPTS"
    using Suc.prems by auto
  have rest: "pollLoop env (h (Suc 0)) (a + 1) =
      (concat (map (\<lambda>i. [Wait POLL_INTERVAL, Poll (h (Suc i))]) [0..<k]), Inr (h (Suc k)))"
  proof (rule Suc.IH)
    show "a + 1 + k \<le> MAX_ATTEMPTS" using Suc.prems(1) by simp
    show "\<forall>i<k. getVideosOperation env (h (Suc i)) (a + 1 + i) = Inr (h (Suc (Suc i)))"
    proof (intro allI impI)
      fix i assume "i < k"
      then have "getVideosOperation env (h (Suc i)) (a + Suc i) = Inr (h (Suc (Suc i)))"
        using Suc.prems(2) by (metis Suc_less_eq)
      then show "getVideosOperation env (h (Suc i)) (a + 1 + i) = Inr (h (Suc (Suc i)))"
        by simp
    qed
    show "\<forall>i<k. \<not> done (h (Suc i))" using Suc.prems(3) by auto
    show "done (h (Suc k)) \<or> a + 1 + k = MAX_ATTEMPTS" using Suc.prems(4) by auto
  qed
  show ?case
    by (subst pollLoop.simps) (simp add: poll0 pending room rest [simplified] upt_shift del: upt_Suc)
qed

lemma count_poll_calls:
  "length (filter isPoll (concat (map (\<lambda>i. [Wait ms, Poll (h i)]) [0..<k]))) = k"
  by (induction k) simp_all

lemma count_waits:
  "length (filter isWait (concat (map (\<lambda>i. [Wait ms, Poll (h i)]) [0..<k]))) = k"
  by (induction k) simp_all

text \<open>
  Resolving a handle waits for nothing and polls nothing.
\<close>

lemma fetchVideo_calls:
  "filter isPoll (fst (fetchVideo env v u)) = [] \<and> filter isWait (fst (fetchVideo env v u)) = []"
  by (simp add: fetchVideo_def Let_def split: sum.splits)

lemma resolveOperation_calls:
  "filter isPoll (fst (resolveOperation env operation)) = []
   \<and> filter isWait (fst (resolveOperation env operation)) = []"
  by (simp add: resolveOperation_def fetchVideo_calls split: option.splits list.splits)

text \<open>
  No run polls more than 60 times: the handle from the submission and the answers to
  the polls are at most 61 observations of the remote job.
\<close>

lemma pollLoop_at_most:
  "length (filter isPoll (fst (pollLoop env operation attempts))) \<le> MAX_ATTEMPTS - attempts"
proof (induction env operation attempts rule: pollLoop.induct)
  case (1 env operation attempts)
  show ?case
  proof (cases "\<not> done operation \<and> attempts < MAX_ATTEMPTS")
    case False
    then show ?thesis by (auto simp: pollLoop.simps [of env operation attempts])
  next
    case True
    show ?thesis
    proof (cases "getVideosOperation env operation attempts")
      case (Inl x)
      with True show ?thesis by (auto simp: pollLoop.simps [of env operation attempts])
    next
      case (Inr operation')
      with True "1.IH" [OF True Inr] show ?thesis
        by (auto simp: pollLoop.simps [of env operation attempts] split: prod.splits)
    qed
  qed
qed

lemma generateVideo_at_most_60_polls:
  "length (filter isPoll (fst (generateVideo env params))) \<le> 60"
proof (cases "buildPayload params")
  case (Inl e)
  then show ?thesis by (simp add: generateVideo_def)
next
  case payload: (Inr generateVideoPayload)
  show ?thesis
  proof (cases "generateVideos env generateVideoPayload")
    case (Inl x)
    with payload show ?thesis by (simp add: generateVideo_def)
  next
    case submitted: (Inr operation)
    obtain calls r where loop: "pollLoop env operation 0 = (calls, r)"
      by (cases "pollLoop env operation 0")
    have bound: "length (filter isPoll calls) \<le> 60"
      using pollLoop_at_most [of env operation 0] by (simp add: loop MAX_ATTEMPTS_def)
    show ?thesis
    proof (cases r)
      case (Inl e)
      with bound show ?thesis by (simp add: generateVideo_def payload submitted loop)
    next
      case (Inr operation')
      obtain calls' r' where res: "resolveOperation env operation' = (calls', r')"
        by (cases "resolveOperation env operation'")
      have "filter isPoll calls' = []"
        using resolveOperation_calls [of env operation'] by (simp add: res)
      with bound show ?thesis
        by (simp add: generateVideo_def payload submitted loop Inr res)
    qed
  qed
qed

text \<open>
  The sample parameters and the sample finished handle, evaluated.
\<close>

lemma sample_payload:
  "buildPayload sampleParams = Inr
     \<lparr>pl_model = ''veo-3.1-fast-generate-preview'',
      config = \<lparr>numberOfVideos = 1, cfg_resolution = ''720p'', cfg_aspectRatio = Some ''16:9'',
                cfg_referenceImages = None, lastFrame = None\<rparr>,
      pl_prompt = Some ''A cat'', image = None, pl_video = None\<rparr>"
  by (simp add: buildPayload_def sampleParams_def selectModel_def initialConfig_def
        addPrompt_def addReferenceImages_def referenceImagesPayload_def addLastFrame_def
        effectiveEndFrame_def addModeInput_def)

lemma sample_resolution:
  "resolveOperation (sampleEnv sched okResponse answer) finishedOperation =
     ([Fetch ''https://example.com/files/abc:download?alt=media&key=KEY''],
      Inr \<lparr>objectUrl = ''blob:sample'', res_blob = ''video-bytes'',
           res_uri = ''https://example.com/files/abc:download?alt=media'',
           res_video = sampleVideo\<rparr>)"
  by (simp add: resolveOperation_def finishedOperation_def locatedVideo_def fetchVideo_def
        sampleEnv_def plainDecode_def template_text_def okResponse_def ok_def sampleVideo_def)

lemma decimal_404: "decimal 404 = ''404''"
  by code_simp

section \<open>Properties\<close>

text \<open>
  Claim C1. When the mode is \<open>EXTEND_VIDEO\<close> and the parameters carry no input video
  object, \<open>generateVideo\<close> fails with the error whose message names the missing
  input video object, and its trace is empty: nothing was submitted, polled or
  fetched before the failure.
\<close>

theorem extend_without_input_video_fails_before_submission:
  assumes "mode params = EXTEND_VIDEO" and "inputVideoObject params = None"
  shows "generateVideo env params =
           ([], Inl (Error ''An input video object is required to extend a video.''))"
  using assms
  by (simp add: generateVideo_def buildPayload_def addModeInput_def missingInputVideoMessage_def)

theorem extend_without_input_video_witness:
  "mode (sampleParams\<lparr>mode := EXTEND_VIDEO, inputVideo := Some (sampleImage ''clip.mp4'')\<rparr>)
     = EXTEND_VIDEO \<and>
   inputVideoObject (sampleParams\<lparr>mode := EXTEND_VIDEO,
       inputVideo := Some (sampleImage ''clip.mp4'')\<rparr>) = None \<and>
   generateVideo (sampleEnv neverDone okResponse (Inl ''unavailable''))
       (sampleParams\<lparr>mode := EXTEND_VIDEO, inputVideo := Some (sampleImage ''clip.mp4'')\<rparr>) =
     ([], Inl (Error ''An input video object is required to extend a video.''))"
proof -
  let ?p = "sampleParams\<lparr>mode := EXTEND_VIDEO, inputVideo := Some (sampleImage ''clip.mp4'')\<rparr>"
  have m: "mode ?p = EXTEND_VIDEO"
    by simp
  have v: "inputVideoObject ?p = None"
    by (simp add: sampleParams_def)
  from extend_without_input_video_fails_before_submission [OF m v] m v
  show ?thesis by blast
qed

text \<open>
  Claim C2. Let the submission return the handle \<open>h 0\<close> and the poll number \<open>i\<close> answer
  \<open>h (i + 1)\<close>, none of them done. Then the trace of \<open>generateVideo\<close> is the
  submission followed by exactly 60 pairs of a wait of 10000 milliseconds (ten
  seconds) and a poll, so there is no 61st poll, and the run fails with the
  time-out error, whose message is none of the three messages that report a
  failure of the remote job.
\<close>

theorem never_done_times_out_after_60_polls:
  assumes "buildPayload params = Inr payload"
    and "generateVideos env payload = Inr (h 0)"
    and "\<forall>i<60. getVideosOperation env (h i) i = Inr (h (Suc i))"
    and "\<forall>i\<le>60. \<not> done (h i)"
  shows "generateVideo env params =
           (Submit payload # concat (map (\<lambda>i. [Wait 10000, Poll (h i)]) [0..<60]),
            Inl (Error ''Video generation timed out after 10 minutes. Please try again.''))
         \<and> length (filter isPoll (fst (generateVideo env params))) = 60
         \<and> ''Video generation timed out after 10 minutes. Please try again.''
             \<notin> {noResponseMessage, noVideosMessage, missingUriMessage}"
proof -
  have loop: "pollLoop env (h 0) 0 =
      (concat (map (\<lambda>i. [Wait POLL_INTERVAL, Poll (h i)]) [0..<60]), Inr (h 60))"
    using assms(3,4) by (intro pollLoop_run) (simp_all add: MAX_ATTEMPTS_def)
  have pending: "\<not> done (h 60)" using assms(4) by simp
  have run: "generateVideo env params =
      (Submit payload # concat (map (\<lambda>i. [Wait 10000, Poll (h i)]) [0..<60]),
       Inl (Error ''Video generation timed out after 10 minutes. Please try again.''))"
    by (simp add: generateVideo_def assms(1,2) loop pending timeoutMessage_def POLL_INTERVAL_def
          del: upt_Suc)
  have count: "length (filter isPoll (fst (generateVideo env params))) = 60"
    by (simp only: run fst_conv filter.simps isPoll.simps if_False count_poll_calls)
  have msgs: "''Video generation timed out after 10 minutes. Please try again.''
             \<notin> {noResponseMessage, noVideosMessage, missingUriMessage}"
    by (simp add: noResponseMessage_def noVideosMessage_def missingUriMessage_def)
  from run count msgs show ?thesis by blast
qed

theorem never_done_witness:
  "buildPayload sampleParams = Inr
     \<lparr>pl_model = ''veo-3.1-fast-generate-preview'',
      config = \<lparr>numberOfVideos = 1, cfg_resolution = ''720p'', cfg_aspectRatio = Some ''16:9'',
                cfg_referenceImages = None, lastFrame = None\<rparr>,
      pl_prompt = Some ''A cat'', image = None, pl_video = None\<rparr> \<and>
   length (filter isPoll (fst (generateVideo (sampleEnv neverDone okResponse (Inl ''unavailable''))
       sampleParams))) = 60 \<and>
   snd (generateVideo (sampleEnv neverDone okResponse (Inl ''unavailable'')) sampleParams) =
     Inl (Error ''Video generation timed out after 10 minutes. Please try again.'')"
proof -
  let ?payload = "\<lparr>pl_model = ''veo-3.1-fast-generate-preview'',
      config = \<lparr>numberOfVideos = 1, cfg_resolution = ''720p'', cfg_aspectRatio = Some ''16:9'',
                cfg_referenceImages = None, lastFrame = None\<rparr>,
      pl_prompt = Some ''A cat'', image = None, pl_video = None\<rparr>"
  let ?env = "sampleEnv neverDone okResponse (Inl ''unavailable'')"
  have s: "generateVideos ?env ?payload = Inr (neverDone 0)"
    by (simp add: sampleEnv_def)
  have p: "\<forall>i<60. getVideosOperation ?env (neverDone i) i = Inr (neverDone (Suc i))"
    by (simp add: sampleEnv_def)
  have d: "\<forall>i\<le>60. \<not> done (neverDone i)"
    by (simp add: neverDone_def pendingOperation_def)
  note b = sample_payload
  note run = never_done_times_out_after_60_polls [OF b s p d]
  have r: "snd (generateVideo ?env sampleParams) =
      Inl (Error ''Video generation timed out after 10 minutes. Please try again.'')"
    by (simp only: run [THEN conjunct1] snd_conv)
  from b run [THEN conjunct2, THEN conjunct1] r show ?thesis by blast
qed

text \<open>
  Claim C3, as the code has it. \<open>enhancePrompt\<close> returns the original prompt when
  the text generation call answers with an absent or empty text, and the answer's
  text when there is one. A failure of the call itself is not caught by
  \<open>enhancePrompt\<close>: it reaches the caller. The counterexample is a run in which the
  call fails and \<open>enhancePrompt\<close> throws instead of returning the prompt.
\<close>

theorem enhancePrompt_fallback:
  "(\<forall>resp. generateContent env ''gemini-2.5-flash'' (enhanceInstruction @ p) = Inr resp
        \<and> (text resp = None \<or> text resp = Some []) \<longrightarrow> enhancePrompt env p = Inr p) \<and>
   (\<forall>resp t. generateContent env ''gemini-2.5-flash'' (enhanceInstruction @ p) = Inr resp
        \<and> text resp = Some t \<and> t \<noteq> [] \<longrightarrow> enhancePrompt env p = Inr t) \<and>
   (\<forall>x. generateContent env ''gemini-2.5-flash'' (enhanceInstruction @ p) = Inl x
        \<longrightarrow> enhancePrompt env p = Inl (External x))"
  by (auto simp: enhancePrompt_def)

theorem enhancePrompt_fallback_witness:
  "enhancePrompt (sampleEnv neverDone okResponse (Inr \<lparr>text = Some []\<rparr>)) ''A cat'' = Inr ''A cat'' \<and>
   enhancePrompt (sampleEnv neverDone okResponse (Inr \<lparr>text = None\<rparr>)) ''A cat'' = Inr ''A cat'' \<and>
   enhancePrompt (sampleEnv neverDone okResponse (Inr \<lparr>text = Some ''A tabby cat at dusk''\<rparr>))
     ''A cat'' = Inr ''A tabby cat at dusk'' \<and>
   enhancePrompt (sampleEnv neverDone okResponse (Inl ''unavailable'')) ''A cat''
     = Inl (External ''unavailable'')"
proof -
  have g: "\<And>a. generateContent (sampleEnv neverDone okResponse a) ''gemini-2.5-flash''
      (enhanceInstruction @ ''A cat'') = a"
    by (simp add: sampleEnv_def)
  note t1 = enhancePrompt_fallback
    [of "sampleEnv neverDone okResponse (Inr \<lparr>text = Some []\<rparr>)" "''A cat''", THEN conjunct1, rule_format,
      of "\<lparr>text = Some []\<rparr>"]
  note t2 = enhancePrompt_fallback
    [of "sampleEnv neverDone okResponse (Inr \<lparr>text = None\<rparr>)" "''A cat''", THEN conjunct1, rule_format,
      of "\<lparr>text = None\<rparr>"]
  note t3 = enhancePrompt_fallback
    [of "sampleEnv neverDone okResponse (Inr \<lparr>text = Some ''A tabby cat at dusk''\<rparr>)" "''A cat''",
      THEN conjunct2, THEN conjunct1, rule_format,
      of "\<lparr>text = Some ''A tabby cat at dusk''\<rparr>" "''A tabby cat at dusk''"]
  note t4 = enhancePrompt_fallback
    [of "sampleEnv neverDone okResponse (Inl ''unavailable'')" "''A cat''",
      THEN conjunct2, THEN conjunct2, rule_format, of "''unavailable''"]
  have "enhancePrompt (sampleEnv neverDone okResponse (Inr \<lparr>text = Some []\<rparr>)) ''A cat'' = Inr ''A cat''"
    by (rule t1) (simp add: g)
  moreover have "enhancePrompt (sampleEnv neverDone okResponse (Inr \<lparr>text = None\<rparr>)) ''A cat'' = Inr ''A cat''"
    by (rule t2) (simp add: g)
  moreover have "enhancePrompt (sampleEnv neverDone okResponse (Inr \<lparr>text = Some ''A tabby cat at dusk''\<rparr>))
     ''A cat'' = Inr ''A tabby cat at dusk''"
    by (rule t3) (simp add: g)
  moreover have "enhancePrompt (sampleEnv neverDone okResponse (Inl ''unavailable'')) ''A cat''
     = Inl (External ''unavailable'')"
    by (rule t4) (simp add: g)
  ultimately show ?thesis by blast
qed

theorem enhancePrompt_throws_counterexample:
  "generateContent (sampleEnv neverDone okResponse (Inl ''unavailable'')) ''gemini-2.5-flash''
      (enhanceInstruction @ ''A cat'') = Inl ''unavailable'' \<and>
   enhancePrompt (sampleEnv neverDone okResponse (Inl ''unavailable'')) ''A cat''
     = Inl (External ''unavailable'') \<and>
   enhancePrompt (sampleEnv neverDone okResponse (Inl ''unavailable'')) ''A cat'' \<noteq> Inr ''A cat''"
  by (simp add: enhancePrompt_def sampleEnv_def)

text \<open>
  Claim C4, as the code has it. The payload has a prompt field exactly when the
  prompt of the parameters is not the empty string; the prompt is not trimmed, and
  outside \<open>EXTEND_VIDEO\<close> it is sent as it is. The counterexample is a prompt of two
  spaces: it is empty after trimming, and the payload carries it.
\<close>

theorem prompt_included_iff_nonempty:
  assumes "mode params = EXTEND_VIDEO \<longrightarrow> inputVideoObject params \<noteq> None"
  shows "\<exists>payload. buildPayload params = Inr payload \<and>
           (pl_prompt payload \<noteq> None \<longleftrightarrow> prompt params \<noteq> []) \<and>
           (mode params \<noteq> EXTEND_VIDEO \<and> prompt params \<noteq> [] \<longrightarrow>
              pl_prompt payload = Some (prompt params))"
proof -
  obtain payload where b: "buildPayload params = Inr payload"
    using buildPayload_succeeds [OF assms] by blast
  from buildPayload_prompt [OF b] b show ?thesis
    by (auto simp: addPrompt_def Let_def)
qed

theorem prompt_included_iff_nonempty_witness:
  "mode (sampleParams\<lparr>prompt := ''  ''\<rparr>) \<noteq> EXTEND_VIDEO \<and>
   prompt (sampleParams\<lparr>prompt := ''  ''\<rparr>) \<noteq> [] \<and>
   (\<exists>payload. buildPayload (sampleParams\<lparr>prompt := ''  ''\<rparr>) = Inr payload \<and>
      pl_prompt payload = Some ''  '')"
proof -
  let ?p = "sampleParams\<lparr>prompt := ''  ''\<rparr>"
  have m: "mode ?p = EXTEND_VIDEO \<longrightarrow> inputVideoObject ?p \<noteq> None"
    by (simp add: sampleParams_def)
  have n: "mode ?p \<noteq> EXTEND_VIDEO \<and> prompt ?p \<noteq> []"
    by (simp add: sampleParams_def)
  from prompt_included_iff_nonempty [OF m] n show ?thesis by auto
qed

theorem whitespace_prompt_counterexample:
  "trim (prompt (sampleParams\<lparr>prompt := ''  ''\<rparr>)) = [] \<and>
   buildPayload (sampleParams\<lparr>prompt := ''  ''\<rparr>) = Inr
     \<lparr>pl_model = ''veo-3.1-fast-generate-preview'',
      config = \<lparr>numberOfVideos = 1, cfg_resolution = ''720p'', cfg_aspectRatio = Some ''16:9'',
                cfg_referenceImages = None, lastFrame = None\<rparr>,
      pl_prompt = Some ''  '', image = None, pl_video = None\<rparr>"
  by (simp add: trim_def isWhiteSpace_def buildPayload_def sampleParams_def selectModel_def
        initialConfig_def addPrompt_def addReferenceImages_def referenceImagesPayload_def
        addLastFrame_def effectiveEndFrame_def addModeInput_def)

text \<open>
  Claim C5, as the code has it. In mode \<open>EXTEND_VIDEO\<close>, with an effective end frame,
  the prompt of the payload is the prompt of the parameters followed by the
  transition instruction, letter for letter, when that prompt is not empty; for the
  empty prompt the payload has no prompt field. The parameters are an argument that
  is only read: \<open>generateVideo\<close> assigns to its local \<open>finalPrompt\<close>, never to
  \<open>params\<close>. The counterexample is the empty prompt: the payload does not carry the
  instruction alone, it carries no prompt.
\<close>

theorem extend_prompt_gets_transition_instruction:
  assumes "mode params = EXTEND_VIDEO" and "effectiveEndFrame params \<noteq> None"
    and "inputVideoObject params \<noteq> None"
  shows "\<exists>payload. buildPayload params = Inr payload \<and>
           pl_prompt payload =
             (if prompt params = [] then None
              else Some (prompt params @
                ''. The video must seamlessly transition from the input video to the provided last frame. Correct any inconsistencies between the input video's end and the target frame so the camera moves in one unified approach to the final frame.''))"
proof -
  obtain payload where b: "buildPayload params = Inr payload"
    using buildPayload_succeeds [of params] assms(3) by blast
  from buildPayload_prompt [OF b] b assms(1,2) show ?thesis
    by (simp add: addPrompt_def Let_def transitionInstruction_def)
qed

theorem extend_prompt_witness:
  "mode (sampleParams\<lparr>mode := EXTEND_VIDEO, endFrame := Some (sampleImage ''end.png''),
        inputVideoObject := Some sampleVideo\<rparr>) = EXTEND_VIDEO \<and>
   effectiveEndFrame (sampleParams\<lparr>mode := EXTEND_VIDEO, endFrame := Some (sampleImage ''end.png''),
        inputVideoObject := Some sampleVideo\<rparr>) \<noteq> None \<and>
   prompt (sampleParams\<lparr>mode := EXTEND_VIDEO, endFrame := Some (sampleImage ''end.png''),
        inputVideoObject := Some sampleVideo\<rparr>) = ''A cat'' \<and>
   (\<exists>payload. buildPayload (sampleParams\<lparr>mode := EXTEND_VIDEO,
        endFrame := Some (sampleImage ''end.png''),
        inputVideoObject := Some sampleVideo\<rparr>) = Inr payload \<and>
      pl_prompt payload = Some
        ''A cat. The video must seamlessly transition from the input video to the provided last frame. Correct any inconsistencies between the input video's end and the target frame so the camera moves in one unified approach to the final frame.'')"
proof -
  let ?p = "sampleParams\<lparr>mode := EXTEND_VIDEO, endFrame := Some (sampleImage ''end.png''),
        inputVideoObject := Some sampleVideo\<rparr>"
  have m: "mode ?p = EXTEND_VIDEO" by simp
  have e: "effectiveEndFrame ?p \<noteq> None" by (simp add: effectiveEndFrame_def)
  have p: "prompt ?p = ''A cat''" by (simp add: sampleParams_def)
  have v: "inputVideoObject ?p \<noteq> None" by simp
  from extend_prompt_gets_transition_instruction [OF m e v] m e p
  show ?thesis by (simp add: sampleParams_def)
qed

theorem extend_empty_prompt_counterexample:
  "mode (sampleParams\<lparr>prompt := [], mode := EXTEND_VIDEO,
        endFrame := Some (sampleImage ''end.png''),
        inputVideoObject := Some sampleVideo\<rparr>) = EXTEND_VIDEO \<and>
   effectiveEndFrame (sampleParams\<lparr>prompt := [], mode := EXTEND_VIDEO,
        endFrame := Some (sampleImage ''end.png''),
        inputVideoObject := Some sampleVideo\<rparr>) = Some (sampleImage ''end.png'') \<and>
   buildPayload (sampleParams\<lparr>prompt := [], mode := EXTEND_VIDEO,
        endFrame := Some (sampleImage ''end.png''),
        inputVideoObject := Some sampleVideo\<rparr>) = Inr
     \<lparr>pl_model = ''veo-3.1-fast-generate-preview'',
      config = \<lparr>numberOfVideos = 1, cfg_resolution = ''720p'', cfg_aspectRatio = None,
                cfg_referenceImages = None,
                lastFrame = Some (toImage (sampleImage ''end.png''))\<rparr>,
      pl_prompt = None, image = None, pl_video = Some sampleVideo\<rparr>"
  by (simp add: buildPayload_def sampleParams_def selectModel_def
        initialConfig_def addPrompt_def addReferenceImages_def referenceImagesPayload_def
        addLastFrame_def effectiveEndFrame_def addModeInput_def)

text \<open>
  Claim C6. With at least one reference image, whatever the mode and the model
  the parameters ask for, the payload is sent to the full model \<open>VeoModel.VEO\<close>.
  (No payload exists in the one case in which building it throws.)
\<close>

theorem reference_images_force_full_model:
  assumes "referenceImages params = Some imgs" and "imgs \<noteq> []"
    and "mode params = EXTEND_VIDEO \<longrightarrow> inputVideoObject params \<noteq> None"
  shows "\<exists>payload. buildPayload params = Inr payload \<and> pl_model payload = VeoModel_VEO"
proof -
  obtain payload where b: "buildPayload params = Inr payload"
    using buildPayload_succeeds [OF assms(3)] by blast
  have "selectModel params = VeoModel_VEO"
    using assms(1,2) by (simp add: selectModel_def)
  with buildPayload_model [OF b] b show ?thesis by simp
qed

theorem reference_images_force_full_model_witness:
  "referenceImages (sampleParams\<lparr>referenceImages := Some [sampleImage ''hero.png'']\<rparr>)
     = Some [sampleImage ''hero.png''] \<and>
   [sampleImage ''hero.png''] \<noteq> [] \<and>
   model (sampleParams\<lparr>referenceImages := Some [sampleImage ''hero.png'']\<rparr>)
     = ''veo-3.1-fast-generate-preview'' \<and>
   (\<exists>payload. buildPayload (sampleParams\<lparr>referenceImages := Some [sampleImage ''hero.png'']\<rparr>)
        = Inr payload \<and> pl_model payload = VeoModel_VEO) \<and>
   VeoModel_VEO \<noteq> ''veo-3.1-fast-generate-preview''"
proof -
  let ?p = "sampleParams\<lparr>referenceImages := Some [sampleImage ''hero.png'']\<rparr>"
  have r: "referenceImages ?p = Some [sampleImage ''hero.png'']" by simp
  have n: "[sampleImage ''hero.png''] \<noteq> []" by simp
  have m: "mode ?p = EXTEND_VIDEO \<longrightarrow> inputVideoObject ?p \<noteq> None"
    by (simp add: sampleParams_def)
  have f: "model ?p = ''veo-3.1-fast-generate-preview''"
    by (simp add: sampleParams_def)
  have d: "VeoModel_VEO \<noteq> ''veo-3.1-fast-generate-preview''"
    by (simp add: VeoModel_VEO_def)
  from reference_images_force_full_model [OF r n m] r n f d show ?thesis by blast
qed

text \<open>
  Claim C7. The list of reference images of the payload holds one \<open>ASSET\<close> entry per
  reference image of the parameters, in their order, then one \<open>STYLE\<close> entry when a
  style image is set; it is present only in the modes \<open>REFERENCES_TO_VIDEO\<close> and
  \<open>EXTEND_VIDEO\<close>, and only when it has an entry. With two reference images and a
  style image in mode \<open>REFERENCES_TO_VIDEO\<close> it has exactly the three entries asset,
  asset, style.
\<close>

theorem reference_image_list:
  assumes "mode params = EXTEND_VIDEO \<longrightarrow> inputVideoObject params \<noteq> None"
  shows "\<exists>payload. buildPayload params = Inr payload \<and>
           cfg_referenceImages (config payload) =
             (let entries =
                    map (\<lambda>img. \<lparr>ref_image = toImage img, referenceType = ASSET\<rparr>)
                      (case referenceImages params of None \<Rightarrow> [] | Some imgs \<Rightarrow> imgs)
                    @ (case styleImage params of
                         None \<Rightarrow> []
                       | Some img \<Rightarrow> [\<lparr>ref_image = toImage img, referenceType = STYLE\<rparr>])
              in if (mode params = REFERENCES_TO_VIDEO \<or> mode params = EXTEND_VIDEO)
                    \<and> entries \<noteq> []
                 then Some entries else None) \<and>
           (\<forall>a b s. mode params = REFERENCES_TO_VIDEO
                    \<and> referenceImages params = Some [a, b] \<and> styleImage params = Some s \<longrightarrow>
              cfg_referenceImages (config payload) =
                Some [\<lparr>ref_image = toImage a, referenceType = ASSET\<rparr>,
                      \<lparr>ref_image = toImage b, referenceType = ASSET\<rparr>,
                      \<lparr>ref_image = toImage s, referenceType = STYLE\<rparr>])"
proof -
  obtain payload where b: "buildPayload params = Inr payload"
    using buildPayload_succeeds [OF assms] by blast
  have e: "referenceImagesPayload params =
      map (\<lambda>img. \<lparr>ref_image = toImage img, referenceType = ASSET\<rparr>)
        (case referenceImages params of None \<Rightarrow> [] | Some imgs \<Rightarrow> imgs)
      @ (case styleImage params of
           None \<Rightarrow> []
         | Some img \<Rightarrow> [\<lparr>ref_image = toImage img, referenceType = STYLE\<rparr>])"
    by (simp add: referenceImagesPayload_def pushAssets_append split: option.splits)
  have general: "cfg_referenceImages (config payload) =
             (let entries =
                    map (\<lambda>img. \<lparr>ref_image = toImage img, referenceType = ASSET\<rparr>)
                      (case referenceImages params of None \<Rightarrow> [] | Some imgs \<Rightarrow> imgs)
                    @ (case styleImage params of
                         None \<Rightarrow> []
                       | Some img \<Rightarrow> [\<lparr>ref_image = toImage img, referenceType = STYLE\<rparr>])
              in if (mode params = REFERENCES_TO_VIDEO \<or> mode params = EXTEND_VIDEO)
                    \<and> entries \<noteq> []
                 then Some entries else None)"
    using buildPayload_referenceImages [OF b] by (simp add: e Let_def)
  have special: "\<forall>a b s. mode params = REFERENCES_TO_VIDEO
                    \<and> referenceImages params = Some [a, b] \<and> styleImage params = Some s \<longrightarrow>
              cfg_referenceImages (config payload) =
                Some [\<lparr>ref_image = toImage a, referenceType = ASSET\<rparr>,
                      \<lparr>ref_image = toImage b, referenceType = ASSET\<rparr>,
                      \<lparr>ref_image = toImage s, referenceType = STYLE\<rparr>]"
    using general by (simp add: Let_def)
  from b general special show ?thesis by blast
qed

theorem reference_image_list_witness:
  "mode (sampleParams\<lparr>mode := REFERENCES_TO_VIDEO,
        referenceImages := Some [sampleImage ''a.png'', sampleImage ''b.png''],
        styleImage := Some (sampleImage ''style.png'')\<rparr>) = REFERENCES_TO_VIDEO \<and>
   (\<exists>payload. buildPayload (sampleParams\<lparr>mode := REFERENCES_TO_VIDEO,
        referenceImages := Some [sampleImage ''a.png'', sampleImage ''b.png''],
        styleImage := Some (sampleImage ''style.png'')\<rparr>) = Inr payload \<and>
      cfg_referenceImages (config payload) =
        Some [\<lparr>ref_image = toImage (sampleImage ''a.png''), referenceType = ASSET\<rparr>,
              \<lparr>ref_image = toImage (sampleImage ''b.png''), referenceType = ASSET\<rparr>,
              \<lparr>ref_image = toImage (sampleImage ''style.png''), referenceType = STYLE\<rparr>] \<and>
      map referenceType (the (cfg_referenceImages (config payload))) = [ASSET, ASSET, STYLE])"
proof -
  let ?p = "sampleParams\<lparr>mode := REFERENCES_TO_VIDEO,
        referenceImages := Some [sampleImage ''a.png'', sampleImage ''b.png''],
        styleImage := Some (sampleImage ''style.png'')\<rparr>"
  have m: "mode ?p = EXTEND_VIDEO \<longrightarrow> inputVideoObject ?p \<noteq> None" by simp
  have r: "mode ?p = REFERENCES_TO_VIDEO
       \<and> referenceImages ?p = Some [sampleImage ''a.png'', sampleImage ''b.png'']
       \<and> styleImage ?p = Some (sampleImage ''style.png'')" by simp
  from reference_image_list [OF m] obtain payload where
    b: "buildPayload ?p = Inr payload" and
    s: "\<forall>a b s. mode ?p = REFERENCES_TO_VIDEO
                    \<and> referenceImages ?p = Some [a, b] \<and> styleImage ?p = Some s \<longrightarrow>
              cfg_referenceImages (config payload) =
                Some [\<lparr>ref_image = toImage a, referenceType = ASSET\<rparr>,
                      \<lparr>ref_image = toImage b, referenceType = ASSET\<rparr>,
                      \<lparr>ref_image = toImage s, referenceType = STYLE\<rparr>]"
    by blast
  from s r have "cfg_referenceImages (config payload) =
        Some [\<lparr>ref_image = toImage (sampleImage ''a.png''), referenceType = ASSET\<rparr>,
              \<lparr>ref_image = toImage (sampleImage ''b.png''), referenceType = ASSET\<rparr>,
              \<lparr>ref_image = toImage (sampleImage ''style.png''), referenceType = STYLE\<rparr>]"
    by blast
  with b r show ?thesis by simp
qed

text \<open>
  Claim C8, as the code has it. For a handle whose first video has a locator, the
  one request made is for the decoded locator followed by \<open>&key=\<close> and the
  credential: the credential is added as a further query parameter, the locator
  already has a query part. A response whose status is outside 200 to 299 makes the
  run fail with a message that holds the status code and the status text. The
  counterexample shows that the request is not the locator followed by \<open>?key=\<close>.
\<close>

theorem fetch_request_and_failure:
  assumes "response operation = Some resp"
    and "generatedVideos resp = Some (firstVideo # others)"
    and "video firstVideo = Some v" and "uri v = Some u" and "u \<noteq> []"
    and "decodeURIComponent env u = Inr url"
    and "API_KEY env = Some credential"
  shows "fst (resolveOperation env operation) = [Fetch (url @ ''&key='' @ credential)] \<and>
         (\<forall>res. fetch env (url @ ''&key='' @ credential) = Inr res
              \<and> \<not> (200 \<le> status res \<and> status res \<le> 299) \<longrightarrow>
            snd (resolveOperation env operation) =
              Inl (Error (''Failed to fetch video: '' @ decimal (status res) @ '' ''
                          @ statusText res)))"
proof -
  have r: "resolveOperation env operation = fetchVideo env v u"
    using assms(1-5) by (simp add: resolveOperation_def locatedVideo_def)
  show ?thesis
    unfolding r using assms(6,7)
    by (auto simp: fetchVideo_def Let_def template_text_def ok_def fetchFailedMessage_def
          split: sum.splits)
qed

theorem fetch_request_and_failure_witness:
  "fst (resolveOperation (sampleEnv neverDone notFoundResponse (Inl ''unavailable''))
          finishedOperation)
     = [Fetch ''https://example.com/files/abc:download?alt=media&key=KEY''] \<and>
   snd (resolveOperation (sampleEnv neverDone notFoundResponse (Inl ''unavailable''))
          finishedOperation)
     = Inl (Error ''Failed to fetch video: 404 Not Found'')"
proof -
  let ?env = "sampleEnv neverDone notFoundResponse (Inl ''unavailable'')"
  let ?u = "''https://example.com/files/abc:download?alt=media''"
  have h1: "response finishedOperation = Some \<lparr>generatedVideos = Some [\<lparr>video = Some sampleVideo\<rparr>]\<rparr>"
    by (simp add: finishedOperation_def)
  have h2: "generatedVideos \<lparr>generatedVideos = Some [\<lparr>video = Some sampleVideo\<rparr>]\<rparr>
      = Some (\<lparr>video = Some sampleVideo\<rparr> # [])" by simp
  have h3: "video \<lparr>video = Some sampleVideo\<rparr> = Some sampleVideo" by simp
  have h4: "uri sampleVideo = Some ?u" by (simp add: sampleVideo_def)
  have h5: "?u \<noteq> []" by simp
  have h6: "decodeURIComponent ?env ?u = Inr ?u" by (simp add: sampleEnv_def plainDecode_def)
  have h7: "API_KEY ?env = Some ''KEY''" by (simp add: sampleEnv_def)
  have f: "fetch ?env (?u @ ''&key='' @ ''KEY'') = Inr notFoundResponse
      \<and> \<not> (200 \<le> status notFoundResponse \<and> status notFoundResponse \<le> 299)"
    by (simp add: sampleEnv_def notFoundResponse_def)
  have d: "decimal (status notFoundResponse) = ''404''"
    unfolding notFoundResponse_def by code_simp
  note t = fetch_request_and_failure [OF h1 h2 h3 h4 h5 h6 h7]
  have "fst (resolveOperation ?env finishedOperation) = [Fetch (?u @ ''&key='' @ ''KEY'')]"
    by (rule t [THEN conjunct1])
  moreover have "snd (resolveOperation ?env finishedOperation) =
      Inl (Error (''Failed to fetch video: '' @ decimal (status notFoundResponse) @ '' ''
                          @ statusText notFoundResponse))"
    using t [THEN conjunct2] f by blast
  ultimately show ?thesis by (simp add: d) (simp add: notFoundResponse_def)
qed

theorem fetch_separator_counterexample:
  "uri sampleVideo = Some ''https://example.com/files/abc:download?alt=media'' \<and>
   decodeURIComponent (sampleEnv neverDone okResponse (Inl ''unavailable''))
      ''https://example.com/files/abc:download?alt=media''
     = Inr ''https://example.com/files/abc:download?alt=media'' \<and>
   API_KEY (sampleEnv neverDone okResponse (Inl ''unavailable'')) = Some ''KEY'' \<and>
   fst (resolveOperation (sampleEnv neverDone okResponse (Inl ''unavailable'')) finishedOperation)
     = [Fetch ''https://example.com/files/abc:download?alt=media&key=KEY''] \<and>
   fst (resolveOperation (sampleEnv neverDone okResponse (Inl ''unavailable'')) finishedOperation)
     \<noteq> [Fetch (''https://example.com/files/abc:download?alt=media'' @ ''?key='' @ ''KEY'')]"
  by (simp add: resolveOperation_def finishedOperation_def sampleVideo_def locatedVideo_def
        fetchVideo_def sampleEnv_def plainDecode_def template_text_def okResponse_def ok_def)

text \<open>
  Claim C9, as the code has it. Resolving a finished handle fails on the shape of
  the handle in three cases, each with a message of its own: no response object; a
  video list that is absent or empty; a first video without a locator (no video
  object, or a locator that is absent or the empty string). The three messages
  differ from each other. These are not the only failures: for a handle whose first
  video has a locator, resolution also fails when the locator cannot be decoded,
  when the fetch is rejected, when the status of the response is outside 200 to 299
  (a fourth message, different from the three) and when the body cannot be read.
  In the one remaining case it succeeds, with the result built from the body, the
  decoded locator and the video object. The counterexample is a handle of good
  shape whose download is answered with status 404: resolution fails, in none of
  the three cases.
\<close>

theorem resolution_failure_cases:
  "(response operation = None \<longrightarrow>
      resolveOperation env operation = ([], Inl (Error ''No videos generated.''))) \<and>
   (\<forall>resp. response operation = Some resp
        \<and> (generatedVideos resp = None \<or> generatedVideos resp = Some []) \<longrightarrow>
      resolveOperation env operation =
        ([], Inl (Error ''Video generation completed but no videos were returned. This may indicate an issue with the API or the request parameters.''))) \<and>
   (\<forall>resp firstVideo others. response operation = Some resp
        \<and> generatedVideos resp = Some (firstVideo # others)
        \<and> (video firstVideo = None
            \<or> (\<exists>v. video firstVideo = Some v \<and> (uri v = None \<or> uri v = Some []))) \<longrightarrow>
      resolveOperation env operation = ([], Inl (Error ''Generated video is missing a URI.''))) \<and>
   (\<forall>resp firstVideo others v u. response operation = Some resp
        \<and> generatedVideos resp = Some (firstVideo # others)
        \<and> video firstVideo = Some v \<and> uri v = Some u \<and> u \<noteq> [] \<longrightarrow>
      (\<forall>x. decodeURIComponent env u = Inl x \<longrightarrow>
         resolveOperation env operation = ([], Inl (External x))) \<and>
      (\<forall>url. decodeURIComponent env u = Inr url \<longrightarrow>
         (\<forall>x. fetch env (url @ ''&key='' @ template_text (API_KEY env)) = Inl x \<longrightarrow>
            resolveOperation env operation =
              ([Fetch (url @ ''&key='' @ template_text (API_KEY env))], Inl (External x))) \<and>
         (\<forall>res. fetch env (url @ ''&key='' @ template_text (API_KEY env)) = Inr res \<longrightarrow>
            (\<not> (200 \<le> status res \<and> status res \<le> 299) \<longrightarrow>
               resolveOperation env operation =
                 ([Fetch (url @ ''&key='' @ template_text (API_KEY env))],
                  Inl (Error (''Failed to fetch video: '' @ decimal (status res) @ '' ''
                              @ statusText res)))) \<and>
            (200 \<le> status res \<and> status res \<le> 299 \<longrightarrow>
               (\<forall>x. blob res = Inl x \<longrightarrow>
                  resolveOperation env operation =
                    ([Fetch (url @ ''&key='' @ template_text (API_KEY env))],
                     Inl (External x))) \<and>
               (\<forall>videoBlob. blob res = Inr videoBlob \<longrightarrow>
                  resolveOperation env operation =
                    ([Fetch (url @ ''&key='' @ template_text (API_KEY env))],
                     Inr \<lparr>objectUrl = createObjectURL env videoBlob, res_blob = videoBlob,
                          res_uri = url, res_video = v\<rparr>)))))) \<and>
   distinct [''No videos generated.'',
     ''Video generation completed but no videos were returned. This may indicate an issue with the API or the request parameters.'',
     ''Generated video is missing a URI.''] \<and>
   (\<forall>code reason. ''Failed to fetch video: '' @ code @ '' '' @ reason \<notin>
      {''No videos generated.'',
       ''Video generation completed but no videos were returned. This may indicate an issue with the API or the request parameters.'',
       ''Generated video is missing a URI.''})"
proof -
  have a: "response operation = None \<longrightarrow>
      resolveOperation env operation = ([], Inl (Error ''No videos generated.''))"
    by (simp add: resolveOperation_def noResponseMessage_def)
  have b: "\<forall>resp. response operation = Some resp
        \<and> (generatedVideos resp = None \<or> generatedVideos resp = Some []) \<longrightarrow>
      resolveOperation env operation =
        ([], Inl (Error ''Video generation completed but no videos were returned. This may indicate an issue with the API or the request parameters.''))"
    by (auto simp: resolveOperation_def noVideosMessage_def)
  have c: "\<forall>resp firstVideo others. response operation = Some resp
        \<and> generatedVideos resp = Some (firstVideo # others)
        \<and> (video firstVideo = None
            \<or> (\<exists>v. video firstVideo = Some v \<and> (uri v = None \<or> uri v = Some []))) \<longrightarrow>
      resolveOperation env operation = ([], Inl (Error ''Generated video is missing a URI.''))"
    by (auto simp: resolveOperation_def locatedVideo_def missingUriMessage_def)
  have d: "\<forall>resp firstVideo others v u. response operation = Some resp
        \<and> generatedVideos resp = Some (firstVideo # others)
        \<and> video firstVideo = Some v \<and> uri v = Some u \<and> u \<noteq> [] \<longrightarrow>
      (\<forall>x. decodeURIComponent env u = Inl x \<longrightarrow>
         resolveOperation env operation = ([], Inl (External x))) \<and>
      (\<forall>url. decodeURIComponent env u = Inr url \<longrightarrow>
         (\<forall>x. fetch env (url @ ''&key='' @ template_text (API_KEY env)) = Inl x \<longrightarrow>
            resolveOperation env operation =
              ([Fetch (url @ ''&key='' @ template_text (API_KEY env))], Inl (External x))) \<and>
         (\<forall>res. fetch env (url @ ''&key='' @ template_text (API_KEY env)) = Inr res \<longrightarrow>
            (\<not> (200 \<le> status res \<and> status res \<le> 299) \<longrightarrow>
               resolveOperation env operation =
                 ([Fetch (url @ ''&key='' @ template_text (API_KEY env))],
                  Inl (Error (''Failed to fetch video: '' @ decimal (status res) @ '' ''
                              @ statusText res)))) \<and>
            (200 \<le> status res \<and> status res \<le> 299 \<longrightarrow>
               (\<forall>x. blob res = Inl x \<longrightarrow>
                  resolveOperation env operation =
                    ([Fetch (url @ ''&key='' @ template_text (API_KEY env))],
                     Inl (External x))) \<and>
               (\<forall>videoBlob. blob res = Inr videoBlob \<longrightarrow>
                  resolveOperation env operation =
                    ([Fetch (url @ ''&key='' @ template_text (API_KEY env))],
                     Inr \<lparr>objectUrl = createObjectURL env videoBlob, res_blob = videoBlob,
                          res_uri = url, res_video = v\<rparr>)))))"
  proof (intro allI impI)
    fix resp firstVideo others v u
    assume shape: "response operation = Some resp
        \<and> generatedVideos resp = Some (firstVideo # others)
        \<and> video firstVideo = Some v \<and> uri v = Some u \<and> u \<noteq> []"
    then have r: "resolveOperation env operation = fetchVideo env v u"
      by (simp add: resolveOperation_def locatedVideo_def)
    show "(\<forall>x. decodeURIComponent env u = Inl x \<longrightarrow>
         resolveOperation env operation = ([], Inl (External x))) \<and>
      (\<forall>url. decodeURIComponent env u = Inr url \<longrightarrow>
         (\<forall>x. fetch env (url @ ''&key='' @ template_text (API_KEY env)) = Inl x \<longrightarrow>
            resolveOperation env operation =
              ([Fetch (url @ ''&key='' @ template_text (API_KEY env))], Inl (External x))) \<and>
         (\<forall>res. fetch env (url @ ''&key='' @ template_text (API_KEY env)) = Inr res \<longrightarrow>
            (\<not> (200 \<le> status res \<and> status res \<le> 299) \<longrightarrow>
               resolveOperation env operation =
                 ([Fetch (url @ ''&key='' @ template_text (API_KEY env))],
                  Inl (Error (''Failed to fetch video: '' @ decimal (status res) @ '' ''
                              @ statusText res)))) \<and>
            (200 \<le> status res \<and> status res \<le> 299 \<longrightarrow>
               (\<forall>x. blob res = Inl x \<longrightarrow>
                  resolveOperation env operation =
                    ([Fetch (url @ ''&key='' @ template_text (API_KEY env))],
                     Inl (External x))) \<and>
               (\<forall>videoBlob. blob res = Inr videoBlob \<longrightarrow>
                  resolveOperation env operation =
                    ([Fetch (url @ ''&key='' @ template_text (API_KEY env))],
                     Inr \<lparr>objectUrl = createObjectURL env videoBlob, res_blob = videoBlob,
                          res_uri = url, res_video = v\<rparr>)))))"
      unfolding r by (simp add: fetchVideo_def Let_def ok_def fetchFailedMessage_def)
  qed
  have e: "distinct [''No videos generated.'',
     ''Video generation completed but no videos were returned. This may indicate an issue with the API or the request parameters.'',
     ''Generated video is missing a URI.'']"
    by simp
  have f: "\<forall>code reason. ''Failed to fetch video: '' @ code @ '' '' @ reason \<notin>
      {''No videos generated.'',
       ''Video generation completed but no videos were returned. This may indicate an issue with the API or the request parameters.'',
       ''Generated video is missing a URI.''}"
    by simp
  from a b c d e f show ?thesis by blast
qed

theorem resolution_failure_cases_witness:
  "resolveOperation (sampleEnv neverDone okResponse (Inl ''unavailable''))
      (finishedOperation\<lparr>response := None\<rparr>)
     = ([], Inl (Error ''No videos generated.'')) \<and>
   resolveOperation (sampleEnv neverDone okResponse (Inl ''unavailable''))
      (finishedOperation\<lparr>response := Some \<lparr>generatedVideos = Some []\<rparr>\<rparr>)
     = ([], Inl (Error ''Video generation completed but no videos were returned. This may indicate an issue with the API or the request parameters.'')) \<and>
   resolveOperation (sampleEnv neverDone okResponse (Inl ''unavailable''))
      (finishedOperation\<lparr>response :=
         Some \<lparr>generatedVideos = Some [\<lparr>video = Some (sampleVideo\<lparr>uri := None\<rparr>)\<rparr>]\<rparr>\<rparr>)
     = ([], Inl (Error ''Generated video is missing a URI.'')) \<and>
   resolveOperation (sampleEnv neverDone okResponse (Inl ''unavailable'')) finishedOperation
     = ([Fetch ''https://example.com/files/abc:download?alt=media&key=KEY''],
        Inr \<lparr>objectUrl = ''blob:sample'', res_blob = ''video-bytes'',
             res_uri = ''https://example.com/files/abc:download?alt=media'',
             res_video = sampleVideo\<rparr>)"
proof -
  let ?env = "sampleEnv neverDone okResponse (Inl ''unavailable'')"
  let ?u = "''https://example.com/files/abc:download?alt=media''"
  let ?a = "finishedOperation\<lparr>response := None\<rparr>"
  let ?b = "finishedOperation\<lparr>response := Some \<lparr>generatedVideos = Some []\<rparr>\<rparr>"
  let ?g = "\<lparr>video = Some (sampleVideo\<lparr>uri := None\<rparr>)\<rparr>"
  let ?c = "finishedOperation\<lparr>response := Some \<lparr>generatedVideos = Some [?g]\<rparr>\<rparr>"
  have ha: "response ?a = None" by simp
  have hb: "response ?b = Some \<lparr>generatedVideos = Some []\<rparr>
      \<and> (generatedVideos \<lparr>generatedVideos = Some []\<rparr> = None
          \<or> generatedVideos \<lparr>generatedVideos = Some []\<rparr> = Some [])" by simp
  have hc: "response ?c = Some \<lparr>generatedVideos = Some [?g]\<rparr>
      \<and> generatedVideos \<lparr>generatedVideos = Some [?g]\<rparr> = Some (?g # [])
      \<and> (video ?g = None
          \<or> (\<exists>v. video ?g = Some v \<and> (uri v = None \<or> uri v = Some [])))" by simp
  have hv: "response finishedOperation = Some \<lparr>generatedVideos = Some [\<lparr>video = Some sampleVideo\<rparr>]\<rparr>
      \<and> generatedVideos \<lparr>generatedVideos = Some [\<lparr>video = Some sampleVideo\<rparr>]\<rparr>
           = Some (\<lparr>video = Some sampleVideo\<rparr> # [])
      \<and> video \<lparr>video = Some sampleVideo\<rparr> = Some sampleVideo
      \<and> uri sampleVideo = Some ?u \<and> ?u \<noteq> []"
    by (simp add: finishedOperation_def sampleVideo_def)
  have hdec: "decodeURIComponent ?env ?u = Inr ?u"
    by (simp add: sampleEnv_def plainDecode_def)
  have hfetch: "fetch ?env (?u @ ''&key='' @ template_text (API_KEY ?env)) = Inr okResponse"
    by (simp add: sampleEnv_def)
  have hok: "200 \<le> status okResponse \<and> status okResponse \<le> 299"
    by (simp add: okResponse_def)
  have hblob: "blob okResponse = Inr ''video-bytes''"
    by (simp add: okResponse_def)
  note cases = resolution_failure_cases
  have ra: "resolveOperation ?env ?a = ([], Inl (Error ''No videos generated.''))"
    using cases [of ?a ?env, THEN conjunct1] ha by blast
  have rb: "resolveOperation ?env ?b =
      ([], Inl (Error ''Video generation completed but no videos were returned. This may indicate an issue with the API or the request parameters.''))"
    using cases [of ?b ?env, THEN conjunct2, THEN conjunct1] hb by blast
  have rc: "resolveOperation ?env ?c = ([], Inl (Error ''Generated video is missing a URI.''))"
    using cases [of ?c ?env, THEN conjunct2, THEN conjunct2, THEN conjunct1] hc by blast
  have rd: "resolveOperation ?env finishedOperation =
      ([Fetch (?u @ ''&key='' @ template_text (API_KEY ?env))],
       Inr \<lparr>objectUrl = createObjectURL ?env ''video-bytes'', res_blob = ''video-bytes'',
            res_uri = ?u, res_video = sampleVideo\<rparr>)"
    using cases [of finishedOperation ?env, THEN conjunct2, THEN conjunct2, THEN conjunct2,
        THEN conjunct1] hv hdec hfetch hok hblob by blast
  have rd': "resolveOperation ?env finishedOperation =
      ([Fetch ''https://example.com/files/abc:download?alt=media&key=KEY''],
        Inr \<lparr>objectUrl = ''blob:sample'', res_blob = ''video-bytes'',
             res_uri = ''https://example.com/files/abc:download?alt=media'',
             res_video = sampleVideo\<rparr>)"
    unfolding rd by (simp add: sampleEnv_def template_text_def)
  from ra rb rc rd' show ?thesis by blast
qed

theorem download_failure_counterexample:
  "response finishedOperation = Some \<lparr>generatedVideos = Some [\<lparr>video = Some sampleVideo\<rparr>]\<rparr> \<and>
   uri sampleVideo = Some ''https://example.com/files/abc:download?alt=media'' \<and>
   fetch (sampleEnv neverDone notFoundResponse (Inl ''unavailable''))
       ''https://example.com/files/abc:download?alt=media&key=KEY''
     = Inr \<lparr>status = 404, statusText = ''Not Found'', blob = Inr []\<rparr> \<and>
   resolveOperation (sampleEnv neverDone notFoundResponse (Inl ''unavailable''))
       finishedOperation
     = ([Fetch ''https://example.com/files/abc:download?alt=media&key=KEY''],
        Inl (Error ''Failed to fetch video: 404 Not Found''))"
  by (simp add: resolveOperation_def finishedOperation_def sampleVideo_def locatedVideo_def
        fetchVideo_def sampleEnv_def plainDecode_def template_text_def notFoundResponse_def
        ok_def fetchFailedMessage_def decimal_404)

text \<open>
  Claim C10. Count the handle returned by the submission as observation 1 and the
  answer to the poll number \<open>i\<close> as observation \<open>i + 1\<close>; the loop polls at most 60
  times, so a run has at most 61 observations. When the observation \<open>k\<close>, which is
  \<open>h (k - 1)\<close>, is the first that is done, the trace is the submission, then \<open>k - 1\<close>
  pairs of one wait of 10000 milliseconds and one poll, then the calls of the
  resolution of that handle, and the result is the result of that resolution. For
  \<open>k = 1\<close> there is no wait and no poll.
\<close>

theorem done_on_kth_observation:
  assumes "buildPayload params = Inr payload"
    and "generateVideos env payload = Inr (h 0)"
    and "1 \<le> k" and "k \<le> 61"
    and "\<forall>i<k - 1. getVideosOperation env (h i) i = Inr (h (Suc i))"
    and "\<forall>i<k - 1. \<not> done (h i)"
    and "done (h (k - 1))"
  shows "generateVideo env params =
           (Submit payload # concat (map (\<lambda>i. [Wait 10000, Poll (h i)]) [0..<k - 1])
              @ fst (resolveOperation env (h (k - 1))),
            snd (resolveOperation env (h (k - 1)))) \<and>
         length (filter isPoll (fst (generateVideo env params))) = k - 1 \<and>
         length (filter isWait (fst (generateVideo env params))) = k - 1"
proof -
  have loop: "pollLoop env (h 0) 0 =
      (concat (map (\<lambda>i. [Wait POLL_INTERVAL, Poll (h i)]) [0..<k - 1]), Inr (h (k - 1)))"
    using assms(4-7) by (intro pollLoop_run) (simp_all add: MAX_ATTEMPTS_def)
  have run: "generateVideo env params =
           (Submit payload # concat (map (\<lambda>i. [Wait 10000, Poll (h i)]) [0..<k - 1])
              @ fst (resolveOperation env (h (k - 1))),
            snd (resolveOperation env (h (k - 1))))"
    using assms(7)
    by (simp add: generateVideo_def assms(1,2) loop POLL_INTERVAL_def split: prod.splits)
  have polls: "length (filter isPoll (fst (generateVideo env params))) = k - 1"
    by (simp only: run fst_conv filter.simps filter_append isPoll.simps if_False
          count_poll_calls resolveOperation_calls list.size append_Nil2 add_0_right)
  have waits: "length (filter isWait (fst (generateVideo env params))) = k - 1"
    by (simp only: run fst_conv filter.simps filter_append isWait.simps if_False
          count_waits resolveOperation_calls list.size append_Nil2 add_0_right)
  from run polls waits show ?thesis by blast
qed

theorem done_on_kth_observation_witness:
  "generateVideo (sampleEnv (doneAt 2) okResponse (Inl ''unavailable'')) sampleParams =
     ([Submit \<lparr>pl_model = ''veo-3.1-fast-generate-preview'',
        config = \<lparr>numberOfVideos = 1, cfg_resolution = ''720p'', cfg_aspectRatio = Some ''16:9'',
                  cfg_referenceImages = None, lastFrame = None\<rparr>,
        pl_prompt = Some ''A cat'', image = None, pl_video = None\<rparr>,
       Wait 10000, Poll pendingOperation, Wait 10000, Poll pendingOperation,
       Fetch ''https://example.com/files/abc:download?alt=media&key=KEY''],
      Inr \<lparr>objectUrl = ''blob:sample'', res_blob = ''video-bytes'',
           res_uri = ''https://example.com/files/abc:download?alt=media'',
           res_video = sampleVideo\<rparr>) \<and>
   generateVideo (sampleEnv (doneAt 0) okResponse (Inl ''unavailable'')) sampleParams =
     ([Submit \<lparr>pl_model = ''veo-3.1-fast-generate-preview'',
        config = \<lparr>numberOfVideos = 1, cfg_resolution = ''720p'', cfg_aspectRatio = Some ''16:9'',
                  cfg_referenceImages = None, lastFrame = None\<rparr>,
        pl_prompt = Some ''A cat'', image = None, pl_video = None\<rparr>,
       Fetch ''https://example.com/files/abc:download?alt=media&key=KEY''],
      Inr \<lparr>objectUrl = ''blob:sample'', res_blob = ''video-bytes'',
           res_uri = ''https://example.com/files/abc:download?alt=media'',
           res_video = sampleVideo\<rparr>)"
proof -
  let ?payload = "\<lparr>pl_model = ''veo-3.1-fast-generate-preview'',
        config = \<lparr>numberOfVideos = 1, cfg_resolution = ''720p'', cfg_aspectRatio = Some ''16:9'',
                  cfg_referenceImages = None, lastFrame = None\<rparr>,
        pl_prompt = Some ''A cat'', image = None, pl_video = None\<rparr>"
  let ?e2 = "sampleEnv (doneAt 2) okResponse (Inl ''unavailable'')"
  let ?e0 = "sampleEnv (doneAt 0) okResponse (Inl ''unavailable'')"
  have s2: "generateVideos ?e2 ?payload = Inr (doneAt 2 0)" by (simp add: sampleEnv_def)
  have p2: "\<forall>i<3 - 1. getVideosOperation ?e2 (doneAt 2 i) i = Inr (doneAt 2 (Suc i))"
    by (simp add: sampleEnv_def)
  have n2: "\<forall>i<3 - 1. \<not> done (doneAt 2 i)" by (simp add: doneAt_def pendingOperation_def)
  have d2: "done (doneAt 2 (3 - 1))" by (simp add: doneAt_def finishedOperation_def)
  have k2: "(1::nat) \<le> 3" "(3::nat) \<le> 61" by simp_all
  have r2: "generateVideo ?e2 sampleParams =
     (Submit ?payload # concat (map (\<lambda>i. [Wait 10000, Poll (doneAt 2 i)]) [0..<3 - 1])
              @ fst (resolveOperation ?e2 (doneAt 2 (3 - 1))),
            snd (resolveOperation ?e2 (doneAt 2 (3 - 1))))"
    by (rule done_on_kth_observation [OF sample_payload s2 k2 p2 n2 d2, THEN conjunct1])
  have s0: "generateVideos ?e0 ?payload = Inr (doneAt 0 0)" by (simp add: sampleEnv_def)
  have p0: "\<forall>i<1 - 1. getVideosOperation ?e0 (doneAt 0 i) i = Inr (doneAt 0 (Suc i))" by simp
  have n0: "\<forall>i<1 - 1. \<not> done (doneAt 0 i)" by simp
  have d0: "done (doneAt 0 (1 - 1))" by (simp add: doneAt_def finishedOperation_def)
  have k0: "(1::nat) \<le> 1" "(1::nat) \<le> 61" by simp_all
  have r0: "generateVideo ?e0 sampleParams =
     (Submit ?payload # concat (map (\<lambda>i. [Wait 10000, Poll (doneAt 0 i)]) [0..<1 - 1])
              @ fst (resolveOperation ?e0 (doneAt 0 (1 - 1))),
            snd (resolveOperation ?e0 (doneAt 0 (1 - 1))))"
    by (rule done_on_kth_observation [OF sample_payload s0 k0 p0 n0 d0, THEN conjunct1])
  have a: "generateVideo ?e2 sampleParams =
     ([Submit ?payload, Wait 10000, Poll pendingOperation, Wait 10000, Poll pendingOperation,
       Fetch ''https://example.com/files/abc:download?alt=media&key=KEY''],
      Inr \<lparr>objectUrl = ''blob:sample'', res_blob = ''video-bytes'',
           res_uri = ''https://example.com/files/abc:download?alt=media'',
           res_video = sampleVideo\<rparr>)"
    unfolding r2 by (simp add: upt_rec doneAt_def sample_resolution)
  have b: "generateVideo ?e0 sampleParams =
     ([Submit ?payload, Fetch ''https://example.com/files/abc:download?alt=media&key=KEY''],
      Inr \<lparr>objectUrl = ''blob:sample'', res_blob = ''video-bytes'',
           res_uri = ''https://example.com/files/abc:download?alt=media'',
           res_video = sampleVideo\<rparr>)"
    unfolding r0 by (simp add: doneAt_def sample_resolution)
  from a b show ?thesis by blast
qed

end
